theory Spec2Isabelle
  imports Complex_Main "HOL-Library.Log_Nat" "HOL-Library.Multiset"
begin

section \<open>Numbers of the engine\<close>

text \<open>
  The columns \<open>price\<close>, \<open>revenue\<close> and every quotient of the pipeline are Spark
  \<open>DoubleType\<close> values, that is IEEE-754 binary64 numbers. A finite double is
  modelled by the rational it denotes, and every arithmetic operation rounds its exact
  result to the nearest value with a 53-bit significand, ties to the even significand.
  The exponent range is not bounded in the model (no overflow to infinity, no
  subnormal numbers), and NaN and the infinities are not values of the model.
  Counts and integer sums are Spark \<open>LongType\<close>; they are modelled by \<open>int\<close>
  (a count of rows stays far below \<open>2 ^ 63\<close>).
\<close>

type_synonym double = rat

definition pow2 :: "int \<Rightarrow> rat" where
  "pow2 k = (if 0 \<le> k then 2 ^ nat k else 1 / 2 ^ nat (- k))"

definition round_even :: "rat \<Rightarrow> int" where
  \<comment> \<open>the nearest integer, a tie going to the even one\<close>
  "round_even q =
     (let f = \<lfloor>q\<rfloor>; r = q - of_int f
      in if r < 1 / 2 then f else if 1 / 2 < r then f + 1
         else if even f then f else f + 1)"

definition binade :: "rat \<Rightarrow> int" where
  \<comment> \<open>the exponent \<open>e\<close> with \<open>2 ^ e \<le> |q| < 2 ^ (e + 1)\<close>, for \<open>q \<noteq> 0\<close>\<close>
  "binade q =
     (let (a, b) = quotient_of \<bar>q\<bar>; k = bitlen a - bitlen b
      in if pow2 k \<le> \<bar>q\<bar> then k else k - 1)"

definition round64 :: "rat \<Rightarrow> double" where
  "round64 q =
     (if q = 0 then 0
      else let u = pow2 (binade q - 52) in of_int (round_even (q / u)) * u)"

definition dadd :: "double \<Rightarrow> double \<Rightarrow> double" where
  "dadd x y = round64 (x + y)"

definition ddiv :: "double \<Rightarrow> double \<Rightarrow> double" where
  "ddiv x y = round64 (x / y)"

definition long_to_double :: "int \<Rightarrow> double" where
  "long_to_double n = round64 (of_int n)"

section \<open>Rows\<close>

text \<open>
  A DataFrame is the list of its rows. Every field of the schema of
  \<open>extract_from_s3\<close> is declared nullable, so every column is an \<open>option\<close>, with
  \<open>None\<close> for SQL null. A timestamp is the number of microseconds since the epoch and a
  date the number of days since the epoch, as Spark stores them; the session time zone is
  taken to be UTC.
\<close>

type_synonym timestamp = int
type_synonym date = int

record raw_event =
  event_id :: "string option"
  user_id :: "string option"
  session_id :: "string option"
  timestamp :: "timestamp option"
  event_type :: "string option"
  product_id :: "string option"
  category :: "string option"
  price :: "double option"
  device_type :: "string option"
  ad_campaign_id :: "string option"
  revenue :: "double option"

record transformed_event = raw_event +
  date :: "date option"
  hour :: "int option"
  is_purchase :: int
  is_ad_driven :: int

record session_metric =
  sm_user_id :: "string option"
  sm_session_id :: "string option"
  sm_date :: "date option"
  total_events :: int
  purchases :: "int option"
  session_revenue :: "double option"
  unique_products_viewed :: int
  sm_device_type :: "string option"

record product_metric =
  pm_product_id :: "string option"
  pm_category :: "string option"
  pm_date :: "date option"
  total_views :: int
  total_purchases :: "int option"
  total_revenue :: "double option"
  avg_price :: "double option"
  conversion_rate :: "double option"

section \<open>Reading the events\<close>

text \<open>
  \<open>extract_from_s3\<close> reads JSON lines with the schema above and no \<open>mode\<close> option, so
  the reader runs in its default mode, PERMISSIVE: a member whose text does not convert to
  the declared type makes that field null, and the record is kept (no exception is
  raised). The timestamp member of a JSON record is given here as the reader sees it:
  absent or null, a text its timestamp formatter parses (with the instant it denotes), or
  a text it rejects. The other members are given already converted.
\<close>

datatype json_timestamp = TsNull | TsParses timestamp | TsMalformed string

record json_event =
  j_event_id :: "string option"
  j_user_id :: "string option"
  j_session_id :: "string option"
  j_timestamp :: json_timestamp
  j_event_type :: "string option"
  j_product_id :: "string option"
  j_category :: "string option"
  j_price :: "double option"
  j_device_type :: "string option"
  j_ad_campaign_id :: "string option"
  j_revenue :: "double option"

fun read_timestamp :: "json_timestamp \<Rightarrow> timestamp option" where
  "read_timestamp TsNull = None"
| "read_timestamp (TsParses t) = Some t"
| "read_timestamp (TsMalformed s) = None"

definition read_row :: "json_event \<Rightarrow> raw_event" where
  "read_row j =
     \<lparr> event_id = j_event_id j, user_id = j_user_id j, session_id = j_session_id j,
       timestamp = read_timestamp (j_timestamp j), event_type = j_event_type j,
       product_id = j_product_id j, category = j_category j, price = j_price j,
       device_type = j_device_type j, ad_campaign_id = j_ad_campaign_id j,
       revenue = j_revenue j \<rparr>"

definition extract_from_s3 :: "json_event list \<Rightarrow> raw_event list" where
  "extract_from_s3 js = map read_row js"

section \<open>Column functions and aggregates\<close>

definition to_date :: "timestamp option \<Rightarrow> date option" where
  "to_date ts = map_option (\<lambda>t. t div 86400000000) ts"

definition hour_of :: "timestamp option \<Rightarrow> int option" where
  "hour_of ts = map_option (\<lambda>t. (t div 3600000000) mod 24) ts"

fun non_null :: "'a option list \<Rightarrow> 'a list" where
  "non_null [] = []"
| "non_null (None # vs) = non_null vs"
| "non_null (Some v # vs) = v # non_null vs"

definition count_star :: "'r list \<Rightarrow> int" where
  "count_star rows = int (length rows)"

definition sum_long :: "int list \<Rightarrow> int option" where
  \<comment> \<open>\<open>sum\<close> over a column without nulls; null on no rows\<close>
  "sum_long vs = (if vs = [] then None else Some (sum_list vs))"

definition sum_double :: "double option list \<Rightarrow> double option" where
  \<comment> \<open>\<open>sum\<close> skips nulls, adds in row order, and is null when nothing was added; this
      is the sum over one partition (over several, the engine adds each partition in row
      order and then adds the partial sums)\<close>
  "sum_double vs = (case non_null vs of [] \<Rightarrow> None | v # ws \<Rightarrow> Some (foldl dadd v ws))"

definition avg_double :: "double option list \<Rightarrow> double option" where
  "avg_double vs =
     (case non_null vs of [] \<Rightarrow> None
      | v # ws \<Rightarrow> Some (ddiv (foldl dadd v ws) (long_to_double (int (length (v # ws))))))"

definition countDistinct :: "'a option list \<Rightarrow> int" where
  "countDistinct vs = int (length (remdups (non_null vs)))"

definition first_value :: "'a option list \<Rightarrow> 'a option" where
  \<comment> \<open>\<open>first\<close> without \<open>ignorenulls\<close>: the value of the first row, null or not\<close>
  "first_value vs = (case vs of [] \<Rightarrow> None | v # _ \<Rightarrow> v)"

definition divide_col :: "int option \<Rightarrow> int option \<Rightarrow> double option" where
  \<comment> \<open>\<open>/\<close> on two long columns: both sides are cast to double; null operand or zero
      divisor gives null\<close>
  "divide_col a b =
     (case (a, b) of
        (Some x, Some y) \<Rightarrow>
          (if long_to_double y = 0 then None
           else Some (ddiv (long_to_double x) (long_to_double y)))
      | _ \<Rightarrow> None)"

fun group_keys :: "'k list \<Rightarrow> 'k list" where
  \<comment> \<open>the distinct keys, in the order of their first row\<close>
  "group_keys [] = []"
| "group_keys (k # ks) = k # removeAll k (group_keys ks)"

definition groupBy :: "('r \<Rightarrow> 'k) \<Rightarrow> 'r list \<Rightarrow> ('k \<times> 'r list) list" where
  \<comment> \<open>one group per distinct key (null keys are equal to each other), holding the rows of
      that key in row order\<close>
  "groupBy key rows =
     map (\<lambda>k. (k, filter (\<lambda>r. key r = k) rows)) (group_keys (map key rows))"

section \<open>The transformation\<close>

definition add_derived_columns :: "raw_event \<Rightarrow> transformed_event" where
  "add_derived_columns r =
     \<lparr> event_id = event_id r, user_id = user_id r, session_id = session_id r,
       timestamp = timestamp r, event_type = event_type r, product_id = product_id r,
       category = category r, price = price r, device_type = device_type r,
       ad_campaign_id = ad_campaign_id r, revenue = revenue r,
       date = to_date (timestamp r),
       hour = hour_of (timestamp r),
       is_purchase = (if event_type r = Some ''purchase'' then 1 else 0),
       is_ad_driven = (if ad_campaign_id r \<noteq> None then 1 else 0) \<rparr>"

definition transformed_df :: "raw_event list \<Rightarrow> transformed_event list" where
  "transformed_df raw_df = map add_derived_columns raw_df"

definition session_key ::
  "transformed_event \<Rightarrow> string option \<times> string option \<times> date option" where
  "session_key e = (user_id e, session_id e, date e)"

definition session_agg ::
  "(string option \<times> string option \<times> date option) \<times> transformed_event list \<Rightarrow> session_metric"
where
  "session_agg g =
     (case g of ((u, s, d), rows) \<Rightarrow>
        \<lparr> sm_user_id = u, sm_session_id = s, sm_date = d,
          total_events = count_star rows,
          purchases = sum_long (map is_purchase rows),
          session_revenue = sum_double (map revenue rows),
          unique_products_viewed = countDistinct (map product_id rows),
          sm_device_type = first_value (map device_type rows) \<rparr>)"

definition session_metrics_of :: "transformed_event list \<Rightarrow> session_metric list" where
  "session_metrics_of df = map session_agg (groupBy session_key df)"

definition product_key ::
  "transformed_event \<Rightarrow> string option \<times> string option \<times> date option" where
  "product_key e = (product_id e, category e, date e)"

definition conversion_rate_col :: "int \<Rightarrow> int option \<Rightarrow> double option" where
  "conversion_rate_col views purch =
     (if views > 0 then divide_col purch (Some views) else Some 0)"

definition product_agg ::
  "(string option \<times> string option \<times> date option) \<times> transformed_event list \<Rightarrow> product_metric"
where
  "product_agg g =
     (case g of ((p, c, d), rows) \<Rightarrow>
        \<lparr> pm_product_id = p, pm_category = c, pm_date = d,
          total_views = count_star rows,
          total_purchases = sum_long (map is_purchase rows),
          total_revenue = sum_double (map revenue rows),
          avg_price = avg_double (map price rows),
          conversion_rate =
            conversion_rate_col (count_star rows) (sum_long (map is_purchase rows)) \<rparr>)"

definition product_metrics_of :: "transformed_event list \<Rightarrow> product_metric list" where
  "product_metrics_of df = map product_agg (groupBy product_key df)"

record transformed_data =
  events :: "transformed_event list"
  session_metrics :: "session_metric list"
  product_metrics :: "product_metric list"

definition transform_events :: "raw_event list \<Rightarrow> transformed_data" where
  "transform_events raw_df =
     \<lparr> events = transformed_df raw_df,
       session_metrics = session_metrics_of (transformed_df raw_df),
       product_metrics = product_metrics_of (transformed_df raw_df) \<rparr>"

section \<open>The data quality check of the pipeline\<close>

text \<open>
  \<open>validate_data_quality\<close> prints and may raise. The model returns the lines printed,
  in order, and the outcome: \<open>Inl\<close> the exception raised, \<open>Inr ()\<close> a normal return.
\<close>

datatype error = ValueError string

definition digit_char :: "nat \<Rightarrow> char" where
  "digit_char d = ''0123456789'' ! d"

function str_nat :: "nat \<Rightarrow> string" where
  "str_nat n = (if n < 10 then [digit_char n] else str_nat (n div 10) @ [digit_char (n mod 10)])"
  by pat_completeness auto
termination
  by (relation "measure id") auto

definition str_int :: "int \<Rightarrow> string" where
  \<comment> \<open>how an f-string prints an integer\<close>
  "str_int i = (if i < 0 then CHR ''-'' # str_nat (nat (- i)) else str_nat (nat i))"

definition warning_line :: "int \<Rightarrow> string" where
  "warning_line n = ''Warning: '' @ str_int n @ '' records with null user_id''"

definition passed_line :: "int \<Rightarrow> string" where
  "passed_line n = ''Data quality check passed: '' @ str_int n @ '' records processed''"

definition null_user_ids :: "transformed_event list \<Rightarrow> int" where
  \<comment> \<open>\<open>df.filter(col("user_id").isNull()).count()\<close>\<close>
  "null_user_ids df = count_star (filter (\<lambda>r. user_id r = None) df)"

definition validate_data_quality :: "transformed_event list \<Rightarrow> string list \<times> (error + unit)" where
  "validate_data_quality df =
     (let total_records = count_star df;
          printed = (if null_user_ids df > 0 then [warning_line (null_user_ids df)] else [])
      in if total_records = 0
         then (printed, Inl (ValueError ''No records found in dataset''))
         else (printed @ [passed_line total_records], Inr ()))"

section \<open>The event generator\<close>

text \<open>
  \<open>generate_shopper_event\<close> reads the clock and draws from the random sources
  (\<open>random\<close>, \<open>Faker\<close>). The values of one call are given to the model as a record, one
  field per call in the source, in the order of the calls. \<open>random.choice\<close> is given by
  the index it picks.
\<close>

definition categories :: "string list" where
  "categories = [''Electronics'', ''Clothing'', ''Books'', ''Home'', ''Sports'']"

definition event_types :: "string list" where
  "event_types = [''page_view'', ''add_to_cart'', ''purchase'', ''search'', ''ad_click'']"

definition device_types :: "string list" where
  "device_types = [''mobile'', ''desktop'', ''tablet'']"

record draws =
  randint_user :: nat
  uuid4_session :: string
  uuid4_event :: string
  utcnow_isoformat :: string
  choice_event_type :: nat
  randint_product :: nat
  choice_category :: nat
  uniform_price :: double
  choice_device :: nat
  country_code :: string
  city_name :: string
  ipv4 :: string
  random_ad :: double
  randint_campaign :: nat
  choice_revenue :: nat
  uniform_revenue :: double

definition valid_draws :: "draws \<Rightarrow> bool" where
  \<comment> \<open>the ranges the random sources promise\<close>
  "valid_draws d \<longleftrightarrow>
     1000 \<le> randint_user d \<and> randint_user d \<le> 99999 \<and>
     choice_event_type d < length event_types \<and>
     1 \<le> randint_product d \<and> randint_product d \<le> 10000 \<and>
     choice_category d < length categories \<and>
     10 \<le> uniform_price d \<and> uniform_price d \<le> 500 \<and>
     choice_device d < length device_types \<and>
     0 \<le> random_ad d \<and> random_ad d < 1 \<and>
     1 \<le> randint_campaign d \<and> randint_campaign d \<le> 100 \<and>
     choice_revenue d < length event_types \<and>
     0 \<le> uniform_revenue d \<and> uniform_revenue d \<le> 500"

record location =
  country :: string
  city :: string
  ip_address :: string

record shopper_event =
  ev_event_id :: string
  ev_user_id :: string
  ev_session_id :: string
  ev_timestamp :: string
  ev_event_type :: string
  ev_product_id :: string
  ev_category :: string
  ev_price :: double
  ev_device_type :: string
  ev_location :: location
  ev_ad_campaign_id :: "string option"
  ev_revenue :: double

definition round2 :: "double \<Rightarrow> double" where
  \<comment> \<open>Python's \<open>round(x, 2)\<close> on a float: the double nearest to \<open>x\<close> rounded to two
      decimals\<close>
  "round2 x = round64 (of_int (round_even (x * 100)) / 100)"

definition generate_shopper_event :: "draws \<Rightarrow> shopper_event" where
  "generate_shopper_event d =
     (let user_id = ''user_'' @ str_nat (randint_user d);
          session_id = uuid4_session d
      in \<lparr> ev_event_id = uuid4_event d,
           ev_user_id = user_id,
           ev_session_id = session_id,
           ev_timestamp = utcnow_isoformat d,
           ev_event_type = event_types ! choice_event_type d,
           ev_product_id = ''prod_'' @ str_nat (randint_product d),
           ev_category = categories ! choice_category d,
           ev_price = round2 (uniform_price d),
           ev_device_type = device_types ! choice_device d,
           ev_location = \<lparr> country = country_code d, city = city_name d, ip_address = ipv4 d \<rparr>,
           ev_ad_campaign_id =
             (if random_ad d > round64 (7 / 10)
              then Some (''campaign_'' @ str_nat (randint_campaign d)) else None),
           ev_revenue =
             (if event_types ! choice_revenue d = ''purchase''
              then round2 (uniform_revenue d) else 0) \<rparr>)"

section \<open>Inputs used below\<close>

definition example_event :: raw_event where
  \<comment> \<open>a purchase on 2024-06-01 at 10:00:00 UTC\<close>
  "example_event =
     \<lparr> event_id = Some ''e1'', user_id = Some ''u1'', session_id = Some ''s1'',
       timestamp = Some 1717236000000000, event_type = Some ''purchase'',
       product_id = Some ''p1'', category = Some ''Electronics'', price = Some 50,
       device_type = Some ''mobile'', ad_campaign_id = None, revenue = Some 100 \<rparr>"

definition example_json :: json_event where
  "example_json =
     \<lparr> j_event_id = Some ''e1'', j_user_id = Some ''u1'', j_session_id = Some ''s1'',
       j_timestamp = TsParses 1717236000000000, j_event_type = Some ''purchase'',
       j_product_id = Some ''p1'', j_category = Some ''Electronics'', j_price = Some 50,
       j_device_type = Some ''mobile'', j_ad_campaign_id = None, j_revenue = Some 100 \<rparr>"

definition not_a_date_json :: json_event where
  "not_a_date_json =
     \<lparr> j_event_id = Some ''e2'', j_user_id = Some ''u1'', j_session_id = Some ''s1'',
       j_timestamp = TsMalformed ''not-a-date'', j_event_type = Some ''page_view'',
       j_product_id = Some ''p1'', j_category = Some ''Electronics'', j_price = Some 50,
       j_device_type = Some ''mobile'', j_ad_campaign_id = None, j_revenue = Some 0 \<rparr>"

definition empty_campaign_event :: raw_event where
  "empty_campaign_event =
     \<lparr> event_id = Some ''e3'', user_id = Some ''u1'', session_id = Some ''s1'',
       timestamp = Some 1717236000000000, event_type = Some ''page_view'',
       product_id = Some ''p1'', category = Some ''Electronics'', price = Some 50,
       device_type = Some ''mobile'', ad_campaign_id = Some [], revenue = Some 0 \<rparr>"

definition null_user_event :: raw_event where
  "null_user_event =
     \<lparr> event_id = Some ''e4'', user_id = None, session_id = Some ''s2'',
       timestamp = Some 1717236000000000, event_type = Some ''search'',
       product_id = Some ''p2'', category = Some ''Books'', price = Some 20,
       device_type = Some ''desktop'', ad_campaign_id = None, revenue = Some 0 \<rparr>"

definition session_event :: "string \<Rightarrow> string \<Rightarrow> double \<Rightarrow> raw_event" where
  \<comment> \<open>an event of session \<open>s1\<close> of user \<open>u1\<close> on 2024-06-01, with the given id, device
      and revenue\<close>
  "session_event i dev amount =
     \<lparr> event_id = Some i, user_id = Some ''u1'', session_id = Some ''s1'',
       timestamp = Some 1717236000000000, event_type = Some ''purchase'',
       product_id = Some ''p1'', category = Some ''Electronics'', price = Some 50,
       device_type = Some dev, ad_campaign_id = None, revenue = Some amount \<rparr>"

definition batch_large_first :: "raw_event list" where
  "batch_large_first =
     [session_event ''a'' ''mobile'' 9007199254740992,
      session_event ''b'' ''mobile'' 1,
      session_event ''c'' ''mobile'' 1]"

definition batch_large_last :: "raw_event list" where
  "batch_large_last =
     [session_event ''b'' ''mobile'' 1,
      session_event ''c'' ''mobile'' 1,
      session_event ''a'' ''mobile'' 9007199254740992]"

definition resampled_draws :: draws where
  \<comment> \<open>the first \<open>random.choice\<close> picks \<open>page_view\<close>, the second one \<open>purchase\<close>\<close>
  "resampled_draws =
     \<lparr> randint_user = 1234, uuid4_session = ''6f1c'', uuid4_event = ''9a2e'',
       utcnow_isoformat = ''2024-06-01T10:00:00'', choice_event_type = 0,
       randint_product = 42, choice_category = 0, uniform_price = 50,
       choice_device = 0, country_code = ''DE'', city_name = ''Berlin'',
       ipv4 = ''192.0.2.1'', random_ad = 1 / 2, randint_campaign = 1,
       choice_revenue = 2, uniform_revenue = 250 \<rparr>"

definition example_product_metric :: product_metric where
  "example_product_metric =
     \<lparr> pm_product_id = Some ''p1'', pm_category = Some ''Electronics'', pm_date = Some 19875,
       total_views = 1, total_purchases = Some 1, total_revenue = Some 100,
       avg_price = Some 50, conversion_rate = Some 1 \<rparr>"

definition session_core ::
  "session_metric \<Rightarrow> string option \<times> string option \<times> date option \<times> int \<times> int option \<times> int" where
  \<comment> \<open>a session metric without its \<open>session_revenue\<close> and \<open>device_type\<close>\<close>
  "session_core m =
     (sm_user_id m, sm_session_id m, sm_date m, total_events m, purchases m,
      unique_products_viewed m)"

definition without_device_type :: "session_metric \<Rightarrow> session_metric" where
  "without_device_type m = m\<lparr> sm_device_type := None \<rparr>"

section \<open>Rounding\<close>

lemma pow2_powi: "pow2 k = 2 powi k"
  by (simp add: pow2_def power_int_def field_simps)

lemma pow2_pos: "0 < pow2 k"
  by (simp add: pow2_powi)

lemma pow2_add: "pow2 (a + b) = pow2 a * pow2 b"
  by (simp add: pow2_powi power_int_add)

lemma pow2_mono: "a \<le> b \<Longrightarrow> pow2 a \<le> pow2 b"
  by (simp add: pow2_powi power_int_increasing)

lemma pow2_nat: "pow2 (int n) = 2 ^ n"
  by (simp add: pow2_def)

lemma round_even_of_int: "round_even (of_int n) = n"
  by (simp add: round_even_def)

lemma round_even_bounds: "\<lfloor>q\<rfloor> \<le> round_even q \<and> round_even q \<le> \<lfloor>q\<rfloor> + 1"
  by (simp add: round_even_def Let_def)

lemma round_even_mono:
  assumes "x \<le> y"
  shows "round_even x \<le> round_even y"
proof (cases "\<lfloor>x\<rfloor> = \<lfloor>y\<rfloor>")
  case True
  with assms have "x - of_int \<lfloor>x\<rfloor> \<le> y - of_int \<lfloor>y\<rfloor>" by simp
  with True show ?thesis
    by (auto simp: round_even_def Let_def)
next
  case False
  with assms have "\<lfloor>x\<rfloor> < \<lfloor>y\<rfloor>"
    by (meson floor_mono le_less)
  then have "\<lfloor>x\<rfloor> + 1 \<le> \<lfloor>y\<rfloor>" by simp
  with round_even_bounds [of x] round_even_bounds [of y] show ?thesis by linarith
qed

lemma binade_bounds:
  assumes "0 < q"
  shows "pow2 (binade q) \<le> q \<and> q < pow2 (binade q + 1)"
proof -
  obtain a b where ab: "quotient_of q = (a, b)" by (cases "quotient_of q")
  then have b: "0 < b" and q: "q = of_int a / of_int b"
    using quotient_of_denom_pos quotient_of_div by blast+
  with assms have a: "0 < a"
    by (simp add: zero_less_divide_iff)
  define k where "k = bitlen a - bitlen b"
  have la: "0 < bitlen a" and lb: "0 < bitlen b"
    using a b bitlen_eq_zero_iff [of a] bitlen_eq_zero_iff [of b] bitlen_nonneg [of a] bitlen_nonneg [of b]
    by linarith+
  have a1: "(2::rat) ^ nat (bitlen a - 1) \<le> of_int a" and a2: "of_int a < (2::rat) ^ nat (bitlen a)"
    using bitlen_bounds [OF a]
    by (metis of_int_le_iff of_int_numeral of_int_power, metis of_int_less_iff of_int_numeral of_int_power)
  have b1: "(2::rat) ^ nat (bitlen b - 1) \<le> of_int b" and b2: "of_int b < (2::rat) ^ nat (bitlen b)"
    using bitlen_bounds [OF b]
    by (metis of_int_le_iff of_int_numeral of_int_power, metis of_int_less_iff of_int_numeral of_int_power)
  have A1: "pow2 (bitlen a - 1) \<le> of_int a" and A2: "of_int a < pow2 (bitlen a)"
    using a1 a2 la by (simp_all add: pow2_def)
  have B1: "pow2 (bitlen b - 1) \<le> of_int b" and B2: "of_int b < pow2 (bitlen b)"
    using b1 b2 lb by (simp_all add: pow2_def)
  have bpos: "(0::rat) < of_int b" using b by simp
  have upper: "q < pow2 (k + 1)"
  proof -
    have "of_int a < pow2 (k + 1) * pow2 (bitlen b - 1)"
      using A2 by (simp add: k_def pow2_add [symmetric])
    also have "\<dots> \<le> pow2 (k + 1) * of_int b"
      using B1 pow2_pos [of "k + 1"] by simp
    finally show ?thesis using bpos by (simp add: q pos_divide_less_eq)
  qed
  have lower: "pow2 (k - 1) \<le> q"
  proof -
    have "pow2 (k - 1) * of_int b \<le> pow2 (k - 1) * pow2 (bitlen b)"
      using B2 pow2_pos [of "k - 1"] by simp
    also have "\<dots> = pow2 (bitlen a - 1)"
      by (simp add: k_def pow2_add [symmetric])
    also have "\<dots> \<le> of_int a" by (rule A1)
    finally show ?thesis using bpos by (simp add: q pos_le_divide_eq)
  qed
  have bin: "binade q = (if pow2 k \<le> q then k else k - 1)"
    using assms ab by (simp add: binade_def k_def Let_def)
  show ?thesis
    using upper lower by (auto simp: bin not_le)
qed

lemma binade_mono:
  assumes "0 < x" "x \<le> y"
  shows "binade x \<le> binade y"
proof (rule ccontr)
  assume "\<not> binade x \<le> binade y"
  then have "binade y + 1 \<le> binade x" by simp
  then have "pow2 (binade y + 1) \<le> pow2 (binade x)" by (rule pow2_mono)
  with binade_bounds [of x] binade_bounds [of y] assms show False by simp
qed

lemma round64_binade:
  assumes "0 < q"
  shows "pow2 (binade q) \<le> round64 q \<and> round64 q \<le> pow2 (binade q + 1)"
proof -
  define u where "u = pow2 (binade q - 52)"
  have u: "0 < u" by (simp add: u_def pow2_pos)
  have r: "round64 q = of_int (round_even (q / u)) * u"
    using assms by (simp add: round64_def u_def Let_def)
  have e1: "pow2 (binade q) = 2 ^ 52 * u"
    using pow2_add [of 52 "binade q - 52"] pow2_nat [of 52] by (simp add: u_def)
  have e2: "pow2 (binade q + 1) = 2 ^ 53 * u"
    using pow2_add [of 53 "binade q - 52"] pow2_nat [of 53] by (simp add: u_def add.commute)
  have lo: "of_int (2 ^ 52) \<le> q / u"
    using binade_bounds [OF assms] u by (simp add: e1 pos_le_divide_eq)
  have hi: "q / u \<le> of_int (2 ^ 53)"
    using binade_bounds [OF assms] u by (simp add: e2 pos_divide_le_eq)
  have "2 ^ 52 \<le> round_even (q / u)"
    using round_even_mono [OF lo] by (simp only: round_even_of_int)
  moreover have "round_even (q / u) \<le> 2 ^ 53"
    using round_even_mono [OF hi] by (simp only: round_even_of_int)
  ultimately have "(2::rat) ^ 52 \<le> of_int (round_even (q / u))" "of_int (round_even (q / u)) \<le> (2::rat) ^ 53"
    by (metis of_int_le_iff of_int_numeral of_int_power)+
  then show ?thesis
    using u by (simp add: r e1 e2)
qed

lemma round64_zero: "round64 0 = 0"
  by (simp add: round64_def)

lemma round64_nonneg: "0 \<le> q \<Longrightarrow> 0 \<le> round64 q"
  using round64_binade [of q] pow2_pos [of "binade q"]
  by (cases "q = 0") (auto simp: round64_zero)

lemma round64_mono:
  assumes "0 \<le> x" "x \<le> y"
  shows "round64 x \<le> round64 y"
proof (cases "x = 0")
  case True
  with assms show ?thesis by (simp add: round64_zero round64_nonneg)
next
  case False
  with assms have x: "0 < x" and y: "0 < y" by simp_all
  show ?thesis
  proof (cases "binade x = binade y")
    case True
    define u where "u = pow2 (binade y - 52)"
    have u: "0 < u" by (simp add: u_def pow2_pos)
    have "x / u \<le> y / u" using assms u by (simp add: divide_right_mono)
    then have "round_even (x / u) \<le> round_even (y / u)" by (rule round_even_mono)
    then have "(of_int (round_even (x / u)) :: rat) * u \<le> of_int (round_even (y / u)) * u"
      using u by simp
    then show ?thesis
      using x y True by (simp add: round64_def u_def Let_def)
  next
    case False
    with binade_mono [OF x assms(2)] have "binade x + 1 \<le> binade y" by simp
    then have "pow2 (binade x + 1) \<le> pow2 (binade y)" by (rule pow2_mono)
    with round64_binade [OF x] round64_binade [OF y] show ?thesis by linarith
  qed
qed

lemma round64_one: "round64 1 = 1"
  by code_simp

lemma dadd_order_decimal:
  "dadd (dadd (round64 (1 / 10)) (round64 (2 / 10))) (round64 (3 / 10))
     \<noteq> dadd (dadd (round64 (3 / 10)) (round64 (2 / 10))) (round64 (1 / 10))"
  by code_simp

lemma round2_250: "round2 250 = 250"
  by code_simp

section \<open>Groups\<close>

lemma set_group_keys: "set (group_keys ks) = set ks"
  by (induction ks) auto

lemma distinct_group_keys: "distinct (group_keys ks)"
  by (induction ks) (auto simp: set_group_keys distinct_removeAll)

lemma sum_list_indicator:
  "distinct ks \<Longrightarrow> (\<Sum>k\<leftarrow>ks. if a = k then 1 else (0::int)) = (if a \<in> set ks then 1 else 0)"
  by (induction ks) auto

lemma sum_group_sizes:
  "distinct ks \<Longrightarrow> key ` set rows \<subseteq> set ks \<Longrightarrow>
   (\<Sum>k\<leftarrow>ks. int (length (filter (\<lambda>r. key r = k) rows))) = int (length rows)"
proof (induction rows)
  case Nil
  then show ?case by simp
next
  case (Cons r rows)
  have "(\<Sum>k\<leftarrow>ks. int (length (filter (\<lambda>x. key x = k) (r # rows)))) =
        (\<Sum>k\<leftarrow>ks. (if key r = k then 1 else 0) + int (length (filter (\<lambda>x. key x = k) rows)))"
    by (rule arg_cong [where f = sum_list]) (auto intro!: map_cong)
  also have "\<dots> = (\<Sum>k\<leftarrow>ks. if key r = k then 1 else 0)
                  + (\<Sum>k\<leftarrow>ks. int (length (filter (\<lambda>x. key x = k) rows)))"
    by (simp add: sum_list_addf)
  also have "\<dots> = 1 + int (length rows)"
    using Cons by (simp add: sum_list_indicator)
  finally show ?case by simp
qed

lemma groupBy_sizes:
  "(\<Sum>g\<leftarrow>groupBy key rows. count_star (snd g)) = count_star rows"
  using sum_group_sizes [of "group_keys (map key rows)" key rows]
  by (simp add: groupBy_def count_star_def comp_def distinct_group_keys set_group_keys)



lemma groupBy_nonempty: "g \<in> set (groupBy key rows) \<Longrightarrow> snd g \<noteq> []"
  by (auto simp: groupBy_def set_group_keys filter_empty_conv)

lemma groupBy_rows: "g \<in> set (groupBy key rows) \<Longrightarrow> set (snd g) \<subseteq> set rows"
  by (auto simp: groupBy_def)

lemma is_purchase_flag: "e \<in> set (transformed_df raw_df) \<Longrightarrow> is_purchase e = 0 \<or> is_purchase e = 1"
  by (auto simp: transformed_df_def add_derived_columns_def)

lemma sum_flags:
  "\<forall>r \<in> set rows. f r = 0 \<or> f r = (1::int) \<Longrightarrow>
   0 \<le> sum_list (map f rows) \<and> sum_list (map f rows) \<le> int (length rows)"
  by (induction rows) auto

lemma product_metric_counts:
  assumes "m \<in> set (product_metrics_of (transformed_df raw_df))"
  shows "\<exists>p. total_purchases m = Some p \<and> 0 \<le> p \<and> p \<le> total_views m \<and> 1 \<le> total_views m
           \<and> conversion_rate m = conversion_rate_col (total_views m) (Some p)"
proof -
  from assms obtain g where g: "g \<in> set (groupBy product_key (transformed_df raw_df))"
    and m: "m = product_agg g"
    by (auto simp: product_metrics_of_def)
  obtain k rows where kr: "g = (k, rows)" by (cases g)
  obtain p c d where k: "k = (p, c, d)" by (cases k)
  have ne: "rows \<noteq> []" using groupBy_nonempty [OF g] kr by simp
  have "\<forall>r \<in> set rows. is_purchase r = 0 \<or> is_purchase r = 1"
    using groupBy_rows [OF g] kr is_purchase_flag by auto
  from sum_flags [OF this] ne show ?thesis
    by (cases rows) (simp_all add: m kr k product_agg_def sum_long_def count_star_def)
qed

lemma long_to_double_pos: "1 \<le> v \<Longrightarrow> 1 \<le> long_to_double v"
  using round64_mono [of 1 "of_int v"] by (simp add: long_to_double_def round64_one)

lemma long_to_double_mono: "0 \<le> p \<Longrightarrow> p \<le> v \<Longrightarrow> long_to_double p \<le> long_to_double v"
  using round64_mono [of "of_int p" "of_int v"] by (simp add: long_to_double_def)

lemma long_to_double_nonneg: "0 \<le> p \<Longrightarrow> 0 \<le> long_to_double p"
  using round64_nonneg [of "of_int p"] by (simp add: long_to_double_def)

lemma conversion_rate_col_pos:
  "0 < v \<Longrightarrow> conversion_rate_col v (Some p) = Some (ddiv (long_to_double p) (long_to_double v))"
  using long_to_double_pos [of v] by (simp add: conversion_rate_col_def divide_col_def)

lemma ddiv_unit:
  assumes "0 \<le> p" "p \<le> v" "1 \<le> v"
  shows "0 \<le> ddiv (long_to_double p) (long_to_double v) \<and> ddiv (long_to_double p) (long_to_double v) \<le> 1"
proof -
  let ?q = "long_to_double p / long_to_double v"
  have v: "0 < long_to_double v" using long_to_double_pos [OF assms(3)] by simp
  have "0 \<le> ?q" using long_to_double_nonneg [OF assms(1)] v by simp
  moreover have "?q \<le> 1" using long_to_double_mono [OF assms(1,2)] v by simp
  ultimately show ?thesis
    using round64_mono [of ?q 1] round64_nonneg [of ?q] by (simp add: ddiv_def round64_one)
qed

section \<open>Aggregates of a group do not depend on the order of its rows\<close>

lemma set_non_null: "set (non_null vs) = {v. Some v \<in> set vs}"
  by (induction vs rule: non_null.induct) auto

lemma countDistinct_set: "set vs = set ws \<Longrightarrow> countDistinct vs = countDistinct ws"
  by (simp add: countDistinct_def length_remdups_card_conv set_non_null)

lemma sum_long_mset: "mset vs = mset ws \<Longrightarrow> sum_long vs = sum_long ws"
proof -
  assume eq: "mset vs = mset ws"
  then have "sum_list vs = sum_list ws"
    by (metis sum_mset_sum_list)
  moreover from eq have "vs = [] \<longleftrightarrow> ws = []"
    by (metis mset_zero_iff)
  ultimately show ?thesis by (simp add: sum_long_def)
qed

lemma session_core_agg_mset:
  assumes "mset rs = mset rs'"
  shows "session_core (session_agg (k, rs)) = session_core (session_agg (k, rs'))"
proof -
  obtain u s d where k: "k = (u, s, d)" by (cases k)
  have len: "length rs = length rs'" using assms by (rule mset_eq_length)
  have "mset (map is_purchase rs) = mset (map is_purchase rs')"
    using assms by (metis mset_map)
  then have purch: "sum_long (map is_purchase rs) = sum_long (map is_purchase rs')"
    by (rule sum_long_mset)
  have "set rs = set rs'" using assms by (rule mset_eq_setD)
  then have "set (map product_id rs) = set (map product_id rs')" by simp
  then have uniq: "countDistinct (map product_id rs) = countDistinct (map product_id rs')"
    by (rule countDistinct_set)
  show ?thesis
    by (simp add: k session_core_def session_agg_def count_star_def len purch uniq)
qed

lemma group_keys_mset:
  assumes "mset xs = mset ys"
  shows "mset (group_keys (map key xs)) = mset (group_keys (map key ys))"
proof -
  have "set (map key xs) = set (map key ys)"
    using assms by (metis mset_eq_setD mset_map)
  then have "set (group_keys (map key xs)) = set (group_keys (map key ys))"
    by (simp only: set_group_keys)
  then show ?thesis
    using distinct_group_keys set_eq_iff_mset_eq_distinct by blast
qed

section \<open>Outcome of the data quality check\<close>

lemma validate_outcome:
  "snd (validate_data_quality df) =
     (if df = [] then Inl (ValueError ''No records found in dataset'') else Inr ())"
  by (simp add: validate_data_quality_def Let_def count_star_def)

lemma null_user_ids_length:
  "null_user_ids df = int (length (filter (\<lambda>r. user_id r = None) df))"
  by (simp add: null_user_ids_def count_star_def)

lemma validate_warning:
  assumes "\<exists>r \<in> set df. user_id r = None"
  shows "warning_line (int (length (filter (\<lambda>r. user_id r = None) df)))
           \<in> set (fst (validate_data_quality df))"
proof -
  from assms have "filter (\<lambda>r. user_id r = None) df \<noteq> []"
    by (simp add: filter_empty_conv)
  then have "0 < null_user_ids df"
    by (simp add: null_user_ids_length)
  then show ?thesis
    by (simp add: validate_data_quality_def Let_def null_user_ids_length)
qed

section \<open>Evaluated inputs\<close>

lemma example_product_metrics:
  "product_metrics (transform_events [example_event]) = [example_product_metric]"
  by code_simp

lemma null_user_batch:
  "int (length (filter (\<lambda>r. user_id r = None)
      (transformed_df [null_user_event, example_event, null_user_event]))) = 2"
  by (simp add: transformed_df_def add_derived_columns_def example_event_def
      null_user_event_def)

lemma warning_line_2: "warning_line 2 = ''Warning: 2 records with null user_id''"
  by code_simp

lemma large_first_metrics:
  "session_metrics (transform_events batch_large_first) =
     [\<lparr> sm_user_id = Some ''u1'', sm_session_id = Some ''s1'', sm_date = Some 19875,
        total_events = 3, purchases = Some 3, session_revenue = Some 9007199254740992,
        unique_products_viewed = 1, sm_device_type = Some ''mobile'' \<rparr>]"
  by code_simp

lemma large_last_metrics:
  "session_metrics (transform_events batch_large_last) =
     [\<lparr> sm_user_id = Some ''u1'', sm_session_id = Some ''s1'', sm_date = Some 19875,
        total_events = 3, purchases = Some 3, session_revenue = Some 9007199254740994,
        unique_products_viewed = 1, sm_device_type = Some ''mobile'' \<rparr>]"
  by code_simp

section \<open>The claims\<close>

subsection \<open>C1: a timestamp that does not parse\<close>

text \<open>
  C1 says that a batch holding an event whose timestamp cannot be parsed is rejected as a
  whole with \<open>MalformedTimestamp\<close>, and that no enriched record is produced. The code
  raises nothing: the reader keeps the record with a null timestamp, and enrichment
  returns one enriched record for every record read, the one of the unparseable timestamp
  with null \<open>timestamp\<close>, \<open>date\<close> and \<open>hour\<close>.
\<close>

theorem unparseable_timestamp_kept_as_null:
  "length (events (transform_events (extract_from_s3 js))) = length js
   \<and> (\<forall>i < length js. \<forall>s. j_timestamp (js ! i) = TsMalformed s \<longrightarrow>
        event_id (events (transform_events (extract_from_s3 js)) ! i) = j_event_id (js ! i)
        \<and> timestamp (events (transform_events (extract_from_s3 js)) ! i) = None
        \<and> date (events (transform_events (extract_from_s3 js)) ! i) = None
        \<and> hour (events (transform_events (extract_from_s3 js)) ! i) = None)"
  by (simp add: transform_events_def transformed_df_def extract_from_s3_def
      add_derived_columns_def read_row_def to_date_def hour_of_def)

text \<open>The theorem at a batch of two records, the second with the timestamp \<open>not-a-date\<close>.\<close>

theorem unparseable_timestamp_kept_as_null_witness:
  "date (events (transform_events (extract_from_s3 [example_json, not_a_date_json])) ! 1) = None
   \<and> hour (events (transform_events (extract_from_s3 [example_json, not_a_date_json])) ! 1) = None"
proof -
  have h: "j_timestamp ([example_json, not_a_date_json] ! 1) = TsMalformed ''not-a-date''"
    by (simp add: not_a_date_json_def)
  have l: "(1::nat) < length [example_json, not_a_date_json]" by simp
  from unparseable_timestamp_kept_as_null [of "[example_json, not_a_date_json]",
      THEN conjunct2, rule_format, OF l h]
  show ?thesis by simp
qed

text \<open>
  C1 as stated fails on that batch: both records are enriched, the first one with its
  date.
\<close>

theorem malformed_batch_not_rejected:
  "j_timestamp not_a_date_json = TsMalformed ''not-a-date''
   \<and> length (events (transform_events (extract_from_s3 [example_json, not_a_date_json]))) = 2
   \<and> map date (events (transform_events (extract_from_s3 [example_json, not_a_date_json])))
       = [Some 19875, None]"
  by code_simp

subsection \<open>C2: the conversion rate\<close>

text \<open>
  C2: every product metric has a conversion rate that is not null, equals the double
  quotient of \<open>total_purchases\<close> by \<open>total_views\<close>, and lies between 0 and 1; the column
  expression gives that quotient whenever \<open>total_views > 0\<close> and 0 when
  \<open>total_views = 0\<close>, so no division by zero is evaluated.
\<close>

theorem conversion_rate_guarded:
  "(\<forall>m \<in> set (product_metrics (transform_events raw_df)).
      \<exists>p r. total_purchases m = Some p \<and> conversion_rate m = Some r
        \<and> r = ddiv (long_to_double p) (long_to_double (total_views m))
        \<and> 0 \<le> r \<and> r \<le> 1)
   \<and> (\<forall>v p. 0 < v \<longrightarrow>
         conversion_rate_col v (Some p) = Some (ddiv (long_to_double p) (long_to_double v)))
   \<and> (\<forall>purch. conversion_rate_col 0 purch = Some 0)"
proof (intro conjI ballI allI impI)
  fix m assume "m \<in> set (product_metrics (transform_events raw_df))"
  then have "m \<in> set (product_metrics_of (transformed_df raw_df))"
    by (simp add: transform_events_def)
  from product_metric_counts [OF this] obtain p where
    p: "total_purchases m = Some p" "0 \<le> p" "p \<le> total_views m" "1 \<le> total_views m"
       "conversion_rate m = conversion_rate_col (total_views m) (Some p)"
    by blast
  then have "conversion_rate m = Some (ddiv (long_to_double p) (long_to_double (total_views m)))"
    by (simp add: conversion_rate_col_pos)
  with p ddiv_unit [of p "total_views m"]
  show "\<exists>p r. total_purchases m = Some p \<and> conversion_rate m = Some r
        \<and> r = ddiv (long_to_double p) (long_to_double (total_views m))
        \<and> 0 \<le> r \<and> r \<le> 1"
    by simp
next
  fix v p :: int assume "0 < v"
  then show "conversion_rate_col v (Some p) = Some (ddiv (long_to_double p) (long_to_double v))"
    by (rule conversion_rate_col_pos)
next
  fix purch show "conversion_rate_col 0 purch = Some 0"
    by (simp add: conversion_rate_col_def)
qed

theorem conversion_rate_guarded_witness:
  "example_product_metric \<in> set (product_metrics (transform_events [example_event]))
   \<and> (\<exists>r. conversion_rate example_product_metric = Some r \<and> 0 \<le> r \<and> r \<le> 1)"
proof -
  have mem: "example_product_metric \<in> set (product_metrics (transform_events [example_event]))"
    by (simp add: example_product_metrics)
  from conversion_rate_guarded [of "[example_event]", THEN conjunct1, rule_format, OF mem]
  show ?thesis using mem by blast
qed

subsection \<open>C3: the empty batch and null user ids\<close>

text \<open>
  C3: \<open>validate_data_quality\<close> raises exactly when the DataFrame has no rows, and then
  the \<open>ValueError\<close> "No records found in dataset"; when some row has a null \<open>user_id\<close>,
  the warning printed carries the number of rows whose \<open>user_id\<close> is null, and the check
  returns normally.
\<close>

theorem validate_fails_iff_empty:
  "((\<exists>e. snd (validate_data_quality df) = Inl e) \<longleftrightarrow> length df = 0)
   \<and> (length df = 0 \<longrightarrow>
        snd (validate_data_quality df) = Inl (ValueError ''No records found in dataset''))
   \<and> ((\<exists>r \<in> set df. user_id r = None) \<longrightarrow>
        warning_line (int (length (filter (\<lambda>r. user_id r = None) df)))
          \<in> set (fst (validate_data_quality df))
        \<and> snd (validate_data_quality df) = Inr ())"
proof (intro conjI impI)
  show "(\<exists>e. snd (validate_data_quality df) = Inl e) \<longleftrightarrow> length df = 0"
    by (simp add: validate_outcome)
next
  assume "length df = 0"
  then show "snd (validate_data_quality df) = Inl (ValueError ''No records found in dataset'')"
    by (simp add: validate_outcome)
next
  assume "\<exists>r \<in> set df. user_id r = None"
  then show "warning_line (int (length (filter (\<lambda>r. user_id r = None) df)))
          \<in> set (fst (validate_data_quality df))"
    by (rule validate_warning)
next
  assume "\<exists>r \<in> set df. user_id r = None"
  then have "df \<noteq> []" by auto
  then show "snd (validate_data_quality df) = Inr ()"
    by (simp add: validate_outcome)
qed

text \<open>
  The theorem at the empty batch, and at a batch of three events of which two have a null
  \<open>user_id\<close>: the warning printed counts two records.
\<close>

theorem validate_fails_iff_empty_witness:
  "snd (validate_data_quality []) = Inl (ValueError ''No records found in dataset'')
   \<and> ''Warning: 2 records with null user_id''
        \<in> set (fst (validate_data_quality
              (transformed_df [null_user_event, example_event, null_user_event])))
   \<and> snd (validate_data_quality
          (transformed_df [null_user_event, example_event, null_user_event])) = Inr ()"
proof -
  have e: "length ([] :: transformed_event list) = 0" by simp
  have n: "\<exists>r \<in> set (transformed_df [null_user_event, example_event, null_user_event]).
             user_id r = None"
    by (simp add: transformed_df_def add_derived_columns_def null_user_event_def)
  from validate_fails_iff_empty [of "[]", THEN conjunct2, THEN conjunct1, rule_format, OF e]
       validate_fails_iff_empty
         [of "transformed_df [null_user_event, example_event, null_user_event]",
          THEN conjunct2, THEN conjunct2, rule_format, OF n]
  show ?thesis by (simp only: null_user_batch warning_line_2 simp_thms)
qed

subsection \<open>C4: session metrics count every event once\<close>

text \<open>
  C4: for every list of enriched events, the \<open>total_events\<close> of the session metrics add
  up to the number of events; so it is for the session metrics \<open>transform_events\<close>
  returns.
\<close>

theorem session_total_events_sum:
  "(\<Sum>m\<leftarrow>session_metrics_of df. total_events m) = int (length df)
   \<and> (\<Sum>m\<leftarrow>session_metrics (transform_events raw_df). total_events m) = int (length raw_df)"
proof -
  have "(\<Sum>m\<leftarrow>session_metrics_of zs. total_events m) = int (length zs)" for zs
    using groupBy_sizes [of session_key zs]
    by (simp add: session_metrics_of_def comp_def session_agg_def split_def count_star_def)
  from this [of df] this [of "transformed_df raw_df"] show ?thesis
    by (simp add: transform_events_def transformed_df_def)
qed

subsection \<open>C5: product metrics count every event once\<close>

text \<open>
  C5: for every list of enriched events, the \<open>total_views\<close> of the product metrics add up
  to the number of events; so it is for the product metrics \<open>transform_events\<close> returns.
\<close>

theorem product_total_views_sum:
  "(\<Sum>m\<leftarrow>product_metrics_of df. total_views m) = int (length df)
   \<and> (\<Sum>m\<leftarrow>product_metrics (transform_events raw_df). total_views m) = int (length raw_df)"
proof -
  have "(\<Sum>m\<leftarrow>product_metrics_of zs. total_views m) = int (length zs)" for zs
    using groupBy_sizes [of product_key zs]
    by (simp add: product_metrics_of_def comp_def product_agg_def split_def count_star_def)
  from this [of df] this [of "transformed_df raw_df"] show ?thesis
    by (simp add: transform_events_def transformed_df_def)
qed

subsection \<open>C6: the ad flag\<close>

text \<open>
  C6 says \<open>is_ad_driven\<close> is set exactly when \<open>ad_campaign_id\<close> is neither null nor
  empty. The code tests \<open>isNotNull\<close> only: the flag is 1 exactly when
  \<open>ad_campaign_id\<close> is not null, and 0 otherwise; the empty string counts as present.
\<close>

theorem is_ad_driven_iff_not_null:
  "(is_ad_driven (add_derived_columns r) = 1 \<longleftrightarrow> ad_campaign_id r \<noteq> None)
   \<and> (is_ad_driven (add_derived_columns r) = 0 \<longleftrightarrow> ad_campaign_id r = None)"
  by (simp add: add_derived_columns_def)

text \<open>C6 as stated fails at an event whose \<open>ad_campaign_id\<close> is the empty string.\<close>

theorem empty_campaign_is_ad_driven:
  "ad_campaign_id empty_campaign_event = Some []
   \<and> is_ad_driven (add_derived_columns empty_campaign_event) = 1"
  by (simp add: empty_campaign_event_def add_derived_columns_def)

subsection \<open>C7: revenue of generated events\<close>

text \<open>
  C7 says a generated event with positive revenue is a purchase. The generator decides
  the revenue on a second \<open>random.choice\<close> over the event types, not on the event's own
  type: when the first choice is \<open>page_view\<close> and the second \<open>purchase\<close>, the event is a
  page view with revenue 250.
\<close>

theorem generator_revenue_without_purchase:
  "valid_draws resampled_draws
   \<and> ev_event_type (generate_shopper_event resampled_draws) = ''page_view''
   \<and> ev_revenue (generate_shopper_event resampled_draws) = 250"
  by (simp add: valid_draws_def generate_shopper_event_def resampled_draws_def event_types_def
      categories_def device_types_def round2_250)

subsection \<open>C8: the empty input\<close>

text \<open>
  C8: on no rows, the derived columns, the session metrics and the product metrics are
  all the empty list, and \<open>transform_events\<close> returns the three empty results.
\<close>

theorem empty_input_empty_output:
  "transformed_df [] = [] \<and> session_metrics_of [] = [] \<and> product_metrics_of [] = []
   \<and> transform_events [] = \<lparr> events = [], session_metrics = [], product_metrics = [] \<rparr>"
  by (simp add: transform_events_def transformed_df_def session_metrics_of_def
      product_metrics_of_def groupBy_def)

subsection \<open>C9: session metrics of a permuted input\<close>

text \<open>
  C9 says a permutation of the input changes the multiset of session metrics in the
  \<open>device_type\<close> field only. \<open>session_revenue\<close> is a sum of doubles taken in row order,
  and double addition rounds, so it can change too. What holds: the multiset of session
  metrics without \<open>device_type\<close> and \<open>session_revenue\<close> (the group key, \<open>total_events\<close>,
  \<open>purchases\<close>, \<open>unique_products_viewed\<close>) is the same for every permutation of the
  input.
\<close>

theorem session_core_permutation:
  assumes "mset xs = mset ys"
  shows "mset (map session_core (session_metrics_of xs)) =
         mset (map session_core (session_metrics_of ys))"
proof -
  let ?G = "\<lambda>zs k. session_core (session_agg (k, filter (\<lambda>r. session_key r = k) zs))"
  have same: "?G xs k = ?G ys k" for k
  proof -
    have "mset (filter (\<lambda>r. session_key r = k) xs) = mset (filter (\<lambda>r. session_key r = k) ys)"
      using assms by (simp only: mset_filter)
    then show ?thesis by (rule session_core_agg_mset)
  qed
  have "mset (map session_core (session_metrics_of xs)) =
        image_mset (?G xs) (mset (group_keys (map session_key xs)))"
    by (simp add: session_metrics_of_def groupBy_def comp_def)
  also have "\<dots> = image_mset (?G ys) (mset (group_keys (map session_key ys)))"
    using same group_keys_mset [OF assms, of session_key] by simp
  also have "\<dots> = mset (map session_core (session_metrics_of ys))"
    by (simp add: session_metrics_of_def groupBy_def comp_def)
  finally show ?thesis .
qed

theorem session_core_permutation_witness:
  "mset (transformed_df batch_large_first) = mset (transformed_df batch_large_last)
   \<and> mset (map session_core (session_metrics_of (transformed_df batch_large_first)))
     = mset (map session_core (session_metrics_of (transformed_df batch_large_last)))"
proof -
  have p: "mset (transformed_df batch_large_first) = mset (transformed_df batch_large_last)"
    by (simp add: transformed_df_def batch_large_first_def batch_large_last_def)
  from session_core_permutation [OF p] p show ?thesis by simp
qed

text \<open>
  C9 as stated fails on three events of one session with revenues \<open>2 ^ 53\<close>, 1 and 1:
  with the large revenue first the sum is \<open>2 ^ 53\<close>, with the large revenue last it is
  \<open>2 ^ 53 + 2\<close>, and the two outputs differ even with \<open>device_type\<close> erased.
\<close>

theorem session_revenue_depends_on_order:
  "mset batch_large_first = mset batch_large_last
   \<and> mset (map without_device_type (session_metrics (transform_events batch_large_first)))
     \<noteq> mset (map without_device_type (session_metrics (transform_events batch_large_last)))"
proof
  show "mset batch_large_first = mset batch_large_last"
    by (simp add: batch_large_first_def batch_large_last_def)
  show "mset (map without_device_type (session_metrics (transform_events batch_large_first)))
     \<noteq> mset (map without_device_type (session_metrics (transform_events batch_large_last)))"
    by (simp add: large_first_metrics large_last_metrics without_device_type_def)
qed

subsection \<open>C10: counts of a product metric\<close>

text \<open>
  C10: every product metric \<open>transform_events\<close> returns has \<open>total_views \<ge> 1\<close> and a
  non-null \<open>total_purchases\<close> between 0 and \<open>total_views\<close>, and its conversion rate is
  the quotient branch of the guard.
\<close>

theorem product_metric_bounds:
  "\<forall>m \<in> set (product_metrics (transform_events raw_df)).
     1 \<le> total_views m
     \<and> (\<exists>p. total_purchases m = Some p \<and> 0 \<le> p \<and> p \<le> total_views m)
     \<and> conversion_rate m = divide_col (total_purchases m) (Some (total_views m))"
proof
  fix m assume "m \<in> set (product_metrics (transform_events raw_df))"
  then have "m \<in> set (product_metrics_of (transformed_df raw_df))"
    by (simp add: transform_events_def)
  from product_metric_counts [OF this] obtain p where
    p: "total_purchases m = Some p" "0 \<le> p" "p \<le> total_views m" "1 \<le> total_views m"
       "conversion_rate m = conversion_rate_col (total_views m) (Some p)"
    by blast
  then show "1 \<le> total_views m
     \<and> (\<exists>p. total_purchases m = Some p \<and> 0 \<le> p \<and> p \<le> total_views m)
     \<and> conversion_rate m = divide_col (total_purchases m) (Some (total_views m))"
    by (simp add: conversion_rate_col_def)
qed

theorem product_metric_bounds_witness:
  "example_product_metric \<in> set (product_metrics (transform_events [example_event]))
   \<and> 1 \<le> total_views example_product_metric
   \<and> (\<exists>p. total_purchases example_product_metric = Some p \<and> 0 \<le> p
          \<and> p \<le> total_views example_product_metric)"
proof -
  have mem: "example_product_metric \<in> set (product_metrics (transform_events [example_event]))"
    by (simp add: example_product_metrics)
  from product_metric_bounds [of "[example_event]", rule_format, OF mem]
  show ?thesis using mem by blast
qed

end
